theory Spec2Isabelle
  imports Main
begin

section \<open>Python values shared by the notebooks\<close>

text \<open>
  The three notebooks define five functions of their own: \<open>current_time\<close> and
  \<open>current_weather\<close> (the LiteLLM notebook), \<open>websearch\<close> (the memory notebook),
  \<open>create_s3_bucket\<close> and \<open>upload_directory\<close> (the knowledge-base notebook). Everything
  they call (the search provider, the time zone database, the clock, the S3 client, the file
  system) belongs to a library or a service. Each such collaborator is a field of a world
  record: what it answers is a parameter of the model, what the notebook's function does with
  the answer is the definition.

  An exception raised by a collaborator is a value. It carries its class together with the
  base classes below \<open>Exception\<close>, the text \<open>str(e)\<close>, and, for botocore's
  \<open>ClientError\<close>, the entry \<open>e.response['Error']['Message']\<close> when the response has one.
  Every value of the type is an instance of \<open>Exception\<close>: interpreter signals such as
  \<open>KeyboardInterrupt\<close> are not outcomes of the calls modelled here.
\<close>

datatype exception =
  PyException (class_name: string) (bases: "string list") (str_of: string)
    (response_message: "string option")

definition isinstance :: "exception \<Rightarrow> string \<Rightarrow> bool" where
  "isinstance e c = (c = class_name e \<or> c \<in> set (bases e) \<or> c = ''Exception'')"

section \<open>The memory notebook: websearch\<close>

text \<open>
  \<open>DDGS().text(keywords, region=region, max_results=max_results)\<close> returns a list of
  dictionaries from strings to strings, or raises. The provider is a parameter: it fixes the
  outcome of its n-th call for every query, and records the queries it was asked.
\<close>

type_synonym search_record = "(string \<times> string) list"

record ddgs_query =
  q_keywords :: string
  q_region :: string
  q_max_results :: "int option"

record ddgs =
  text_outcome :: "nat \<Rightarrow> ddgs_query \<Rightarrow> exception + search_record list"
  text_calls :: "ddgs_query list"

definition DDGS_text :: "ddgs \<Rightarrow> ddgs_query \<Rightarrow> (exception + search_record list) \<times> ddgs" where
  "DDGS_text w q =
     (text_outcome w (length (text_calls w)) q, w\<lparr>text_calls := text_calls w @ [q]\<rparr>)"

text \<open>
  What \<open>max_results\<close> means to the provider, as the docstring of \<open>websearch\<close> puts it
  ("the maximum number of results to return"): a call given a positive cap returns no more
  records than the cap. \<open>DDGS().text\<close> stops collecting at \<open>max_results\<close>; the library is
  not part of the notebook, so its keeping to the cap is a condition on the provider.
\<close>

definition honours_max_results :: "ddgs \<Rightarrow> bool" where
  "honours_max_results w =
     (\<forall>n q rs cap. text_outcome w n q = Inr rs \<and> q_max_results q = Some cap \<and> 0 < cap \<longrightarrow>
        int (length rs) \<le> cap)"

text \<open>
  The function is annotated \<open>-> str\<close> but returns the provider's list when it is not empty,
  so a result is either a string or a list of records.
\<close>

datatype tool_value = Str string | Records "search_record list"

definition websearch ::
  "ddgs \<Rightarrow> string \<Rightarrow> string \<Rightarrow> int option \<Rightarrow> (exception + tool_value) \<times> ddgs" where
  "websearch w keywords region max_results =
     (case DDGS_text w \<lparr>q_keywords = keywords, q_region = region, q_max_results = max_results\<rparr> of
        (Inr results, w') \<Rightarrow>
          (Inr (if results \<noteq> [] then Records results else Str ''No results found.''), w')
      | (Inl e, w') \<Rightarrow>
          (if isinstance e ''RatelimitException''
           then Inr (Str ''RatelimitException: Please try again after a short delay.'')
           else if isinstance e ''DuckDuckGoSearchException''
           then Inr (Str (''DuckDuckGoSearchException: '' @ str_of e))
           else if isinstance e ''Exception''
           then Inr (Str (''Exception: '' @ str_of e))
           else Inl e,
           w'))"

text \<open>The defaults of the signature: \<open>region = "us-en"\<close>, \<open>max_results = None\<close>.\<close>

definition websearch_region_default :: string where
  "websearch_region_default = ''us-en''"

definition websearch_max_results_default :: "int option" where
  "websearch_max_results_default = None"

section \<open>The LiteLLM notebook: current_weather and current_time\<close>

definition current_weather :: "string \<Rightarrow> exception + string" where
  "current_weather city = Inr ''sunny''"

subsection \<open>Strings\<close>

text \<open>
  Time zone names are ASCII text; on ASCII \<open>str.upper\<close> maps the letters a to z to A to Z
  and leaves every other character alone.
\<close>

definition upper_char :: "char \<Rightarrow> char" where
  "upper_char c =
     (case map_of (zip ''abcdefghijklmnopqrstuvwxyz'' ''ABCDEFGHIJKLMNOPQRSTUVWXYZ'') c of
        Some u \<Rightarrow> u
      | None \<Rightarrow> c)"

definition upper :: "string \<Rightarrow> string" where
  "upper s = map upper_char s"

subsection \<open>Aware datetimes and their ISO form\<close>

text \<open>
  A \<open>datetime\<close> carrying a time zone: the civil fields and the offset from UTC in seconds
  (\<open>timezone.utc\<close> and every \<open>ZoneInfo\<close> zone give whole seconds).
\<close>

record datetime =
  year :: nat
  month :: nat
  day :: nat
  hour :: nat
  minute :: nat
  second :: nat
  microsecond :: nat
  utcoffset :: int

text \<open>
  The decimal digits of a number, and \<open>"%0wd" % n\<close>: the digits padded with zeros on the
  left to at least \<open>w\<close> characters.
\<close>

definition digit_char :: "nat \<Rightarrow> char" where
  "digit_char n = ''0123456789'' ! n"

fun dec :: "nat \<Rightarrow> string" where
  "dec n = (if n < 10 then [digit_char n] else dec (n div 10) @ [digit_char (n mod 10)])"

declare dec.simps [simp del]

definition zpad :: "nat \<Rightarrow> nat \<Rightarrow> string" where
  "zpad w n = replicate (w - length (dec n)) CHR ''0'' @ dec n"

text \<open>
  \<open>datetime.isoformat()\<close> with its defaults (separator \<open>T\<close>, \<open>timespec='auto'\<close>): the
  fraction is printed only when the microseconds are not zero, the seconds of the offset
  only when they are not zero.
\<close>

definition format_time :: "nat \<Rightarrow> nat \<Rightarrow> nat \<Rightarrow> nat \<Rightarrow> string" where
  "format_time hh mm ss us =
     zpad 2 hh @ '':'' @ zpad 2 mm @ '':'' @ zpad 2 ss @
     (if us \<noteq> 0 then ''.'' @ zpad 6 us else [])"

definition format_offset :: "int \<Rightarrow> string" where
  "format_offset off =
     (let sign = (if off < 0 then ''-'' else ''+'');
          a = nat \<bar>off\<bar>;
          hh = a div 3600;
          mm = (a mod 3600) div 60;
          ss = a mod 60
      in sign @ zpad 2 hh @ '':'' @ zpad 2 mm @ (if ss \<noteq> 0 then '':'' @ zpad 2 ss else []))"

definition isoformat :: "datetime \<Rightarrow> string" where
  "isoformat d =
     zpad 4 (year d) @ ''-'' @ zpad 2 (month d) @ ''-'' @ zpad 2 (day d) @ ''T'' @
     format_time (hour d) (minute d) (second d) (microsecond d) @
     format_offset (utcoffset d)"

subsection \<open>Reading an ISO timestamp\<close>

text \<open>
  What "a parseable ISO-format timestamp" means: a reader of the extended ISO 8601 form
  \<open>YYYY-MM-DDThh:mm:ss[.ffffff](+|-)hh:mm[:ss]\<close>, as \<open>datetime.fromisoformat\<close>
  accepts it, returning the datetime the text denotes. The reader rejects a text whose
  fields are out of range; those ranges are the ones every \<open>datetime\<close> object satisfies.
\<close>

definition is_leap :: "nat \<Rightarrow> bool" where
  "is_leap y = (y mod 4 = 0 \<and> (y mod 100 \<noteq> 0 \<or> y mod 400 = 0))"

definition days_in_month :: "nat \<Rightarrow> nat \<Rightarrow> nat" where
  "days_in_month y m =
     (if m = 2 then (if is_leap y then 29 else 28)
      else if m = 4 \<or> m = 6 \<or> m = 9 \<or> m = 11 then 30 else 31)"

definition valid_datetime :: "datetime \<Rightarrow> bool" where
  "valid_datetime d =
     (1 \<le> year d \<and> year d \<le> 9999 \<and> 1 \<le> month d \<and> month d \<le> 12 \<and>
      1 \<le> day d \<and> day d \<le> days_in_month (year d) (month d) \<and>
      hour d < 24 \<and> minute d < 60 \<and> second d < 60 \<and> microsecond d < 1000000 \<and>
      - 86400 < utcoffset d \<and> utcoffset d < 86400)"

definition is_digit :: "char \<Rightarrow> bool" where
  "is_digit c = (c \<in> set ''0123456789'')"

definition digit_value :: "char \<Rightarrow> nat" where
  "digit_value c = (case map_of (zip ''0123456789'' [0, 1, 2, 3, 4, 5, 6, 7, 8, 9]) c of
                      Some v \<Rightarrow> v
                    | None \<Rightarrow> 0)"

definition nat_of_digits :: "string \<Rightarrow> nat" where
  "nat_of_digits cs = foldl (\<lambda>acc c. acc * 10 + digit_value c) 0 cs"

definition read_number :: "nat \<Rightarrow> string \<Rightarrow> (nat \<times> string) option" where
  "read_number k s =
     (if k \<le> length s \<and> list_all is_digit (take k s)
      then Some (nat_of_digits (take k s), drop k s)
      else None)"

definition read_char :: "char \<Rightarrow> string \<Rightarrow> string option" where
  "read_char c s = (case s of [] \<Rightarrow> None | x # rest \<Rightarrow> if x = c then Some rest else None)"

definition read_fraction :: "string \<Rightarrow> (nat \<times> string) option" where
  "read_fraction s =
     (case s of
        [] \<Rightarrow> Some (0, s)
      | x # rest \<Rightarrow> if x = CHR ''.'' then read_number 6 rest else Some (0, s))"

definition read_sign :: "string \<Rightarrow> (int \<times> string) option" where
  "read_sign s =
     (case s of
        [] \<Rightarrow> None
      | x # rest \<Rightarrow>
          if x = CHR ''+'' then Some (1, rest)
          else if x = CHR ''-'' then Some (- 1, rest)
          else None)"

definition read_offset_seconds :: "string \<Rightarrow> (nat \<times> string) option" where
  "read_offset_seconds s =
     (case s of
        [] \<Rightarrow> Some (0, s)
      | x # rest \<Rightarrow> if x = CHR '':'' then read_number 2 rest else None)"

definition fromisoformat :: "string \<Rightarrow> datetime option" where
  "fromisoformat s0 =
     Option.bind (read_number 4 s0) (\<lambda>(y, s1).
     Option.bind (read_char CHR ''-'' s1) (\<lambda>s2.
     Option.bind (read_number 2 s2) (\<lambda>(mo, s3).
     Option.bind (read_char CHR ''-'' s3) (\<lambda>s4.
     Option.bind (read_number 2 s4) (\<lambda>(dd, s5).
     Option.bind (read_char CHR ''T'' s5) (\<lambda>s6.
     Option.bind (read_number 2 s6) (\<lambda>(hh, s7).
     Option.bind (read_char CHR '':'' s7) (\<lambda>s8.
     Option.bind (read_number 2 s8) (\<lambda>(mi, s9).
     Option.bind (read_char CHR '':'' s9) (\<lambda>s10.
     Option.bind (read_number 2 s10) (\<lambda>(ss, s11).
     Option.bind (read_fraction s11) (\<lambda>(us, s12).
     Option.bind (read_sign s12) (\<lambda>(sign, s13).
     Option.bind (read_number 2 s13) (\<lambda>(oh, s14).
     Option.bind (read_char CHR '':'' s14) (\<lambda>s15.
     Option.bind (read_number 2 s15) (\<lambda>(om, s16).
     Option.bind (read_offset_seconds s16) (\<lambda>(os, s17).
       (let d = \<lparr>year = y, month = mo, day = dd, hour = hh, minute = mi, second = ss,
                  microsecond = us,
                  utcoffset = sign * int (oh * 3600 + om * 60 + os)\<rparr>
        in if s17 = [] \<and> om < 60 \<and> os < 60 \<and> valid_datetime d then Some d else None)
     )))))))))))))))))"

subsection \<open>The clock and the time zone database\<close>

text \<open>
  A \<open>tzinfo\<close> object is used through \<open>fromutc\<close> only: \<open>datetime.now(tz)\<close> reads the clock
  as a UTC datetime and returns \<open>tz.fromutc\<close> of it. \<open>ZoneInfo(key)\<close> returns the zone of
  the database or raises (\<open>ZoneInfoNotFoundError\<close>, \<open>ValueError\<close> for a malformed key).
  Both the clock's reading and the database are parameters; the environment records the
  keys that were looked up.
\<close>

type_synonym tzinfo = "datetime \<Rightarrow> datetime"

definition tz_utc :: tzinfo where
  "tz_utc u = u\<lparr>utcoffset := 0\<rparr>"

record clock_env =
  utcnow :: datetime
  zoneinfo_db :: "string \<Rightarrow> exception + tzinfo"
  zoneinfo_lookups :: "string list"

definition ZoneInfo :: "clock_env \<Rightarrow> string \<Rightarrow> (exception + tzinfo) \<times> clock_env" where
  "ZoneInfo env key =
     (zoneinfo_db env key, env\<lparr>zoneinfo_lookups := zoneinfo_lookups env @ [key]\<rparr>)"

definition datetime_now :: "clock_env \<Rightarrow> tzinfo \<Rightarrow> datetime" where
  "datetime_now env tz = tz (utcnow env)"

definition current_time :: "clock_env \<Rightarrow> string \<Rightarrow> (exception + string) \<times> clock_env" where
  "current_time env timezone =
     (if upper timezone = ''UTC''
      then (Inr (isoformat (datetime_now env tz_utc)), env)
      else (case ZoneInfo env timezone of
              (Inl e, env') \<Rightarrow> (Inl e, env')
            | (Inr timezone_obj, env') \<Rightarrow>
                (Inr (isoformat (datetime_now env' timezone_obj)), env')))"

text \<open>The default of the signature: \<open>timezone = "UTC"\<close>.\<close>

definition current_time_timezone_default :: string where
  "current_time_timezone_default = ''UTC''"

section \<open>The knowledge-base notebook: create_s3_bucket and upload_directory\<close>

text \<open>
  The world of the notebook: the local file system, the S3 service reached through boto3, and
  the standard output. The service is a parameter: it fixes whether constructing a client
  raises, and the outcome of the n-th \<open>create_bucket\<close> and \<open>upload_file\<close> call for every
  request; the world records the requests made, the objects stored and the lines printed.
\<close>

record create_bucket_call =
  cb_client_region :: "string option"
  cb_Bucket :: string
  cb_LocationConstraint :: "string option"

record upload_call =
  up_Filename :: string
  up_Bucket :: string
  up_Key :: string

text \<open>
  A directory as \<open>os.scandir\<close> lists it: the names that are not directories, and the
  sub-directories with their contents, each in listing order. The trees are those without
  symbolic links to directories, which \<open>os.walk\<close> lists but does not enter.
\<close>

datatype directory =
  Directory (dir_files: "string list") (dir_subdirs: "(string \<times> directory) list")

record kb_world =
  filesystem :: "string \<Rightarrow> directory option"
  client_outcome :: "string option \<Rightarrow> exception option"
  create_bucket_outcome :: "nat \<Rightarrow> create_bucket_call \<Rightarrow> exception option"
  create_bucket_calls :: "create_bucket_call list"
  upload_outcome :: "nat \<Rightarrow> upload_call \<Rightarrow> exception option"
  upload_calls :: "upload_call list"
  objects :: "string \<times> string \<Rightarrow> string option"
  stdout :: "string list"

definition py_print :: "kb_world \<Rightarrow> string \<Rightarrow> kb_world" where
  "py_print w line = w\<lparr>stdout := stdout w @ [line]\<rparr>"

subsection \<open>create_s3_bucket\<close>

text \<open>
  \<open>boto3.client('s3', region_name=region)\<close> stands outside the \<open>try\<close>. A client is
  known by the region it was built for.
\<close>

definition boto3_client :: "kb_world \<Rightarrow> string option \<Rightarrow> exception + string option" where
  "boto3_client w region = (case client_outcome w region of Some e \<Rightarrow> Inl e | None \<Rightarrow> Inr region)"

definition create_bucket ::
  "kb_world \<Rightarrow> string option \<Rightarrow> string \<Rightarrow> string option \<Rightarrow> exception option \<times> kb_world" where
  "create_bucket w s3 bucket constraint =
     (let c = \<lparr>cb_client_region = s3, cb_Bucket = bucket, cb_LocationConstraint = constraint\<rparr>
      in (create_bucket_outcome w (length (create_bucket_calls w)) c,
          w\<lparr>create_bucket_calls := create_bucket_calls w @ [c]\<rparr>))"

text \<open>
  The two printed lines start with U+2705 and U+274C, written here as their UTF-8 bytes.
  \<open>e.response['Error']['Message']\<close> raises \<open>KeyError\<close> inside the handler when the
  response has no such entry.
\<close>

definition check_mark :: string where
  "check_mark = [CHR 0xE2, CHR 0x9C, CHR 0x85]"

definition cross_mark :: string where
  "cross_mark = [CHR 0xE2, CHR 0x9D, CHR 0x8C]"

definition key_error :: exception where
  "key_error = PyException ''KeyError'' [''LookupError''] ''Message'' None"

definition create_s3_bucket ::
  "kb_world \<Rightarrow> string \<Rightarrow> string option \<Rightarrow> (exception + unit) \<times> kb_world" where
  "create_s3_bucket w bucket_name region =
     (case boto3_client w region of
        Inl e \<Rightarrow> (Inl e, w)
      | Inr s3 \<Rightarrow>
          (case (if region = None \<or> region = Some ''us-east-1''
                 then create_bucket w s3 bucket_name None
                 else create_bucket w s3 bucket_name region) of
             (None, w1) \<Rightarrow>
               (Inr (),
                py_print w1 (check_mark @ '' Bucket '' @ [CHR 0x27] @ bucket_name @ [CHR 0x27] @
                             '' created successfully.''))
           | (Some e, w1) \<Rightarrow>
               if isinstance e ''ClientError''
               then (case response_message e of
                       Some msg \<Rightarrow>
                         (Inr (), py_print w1 (cross_mark @ '' Failed to create bucket: '' @ msg))
                     | None \<Rightarrow> (Inl key_error, w1))
               else (Inl e, w1)))"

text \<open>
  The behaviour the specification attributes to the provisioning code, in its own words: a
  single unconditional call of the create-bucket API, the same for every region, whose
  failure propagates unchanged.
\<close>

definition create_bucket_as_specified ::
  "kb_world \<Rightarrow> string \<Rightarrow> string option \<Rightarrow> (exception + unit) \<times> kb_world" where
  "create_bucket_as_specified w bucket_name region =
     (case boto3_client w region of
        Inl e \<Rightarrow> (Inl e, w)
      | Inr s3 \<Rightarrow>
          (case create_bucket w s3 bucket_name None of
             (None, w1) \<Rightarrow> (Inr (), w1)
           | (Some e, w1) \<Rightarrow> (Inl e, w1)))"

subsection \<open>upload_directory\<close>

text \<open>
  \<open>os.path.join\<close> of two parts, and \<open>os.walk\<close> top-down: the directory itself, then each
  sub-directory in listing order. A path that is not a directory yields nothing. The walk is
  a generator in Python; the uploads do not change the local files, so listing the whole
  tree first gives the same triples.
\<close>

definition os_path_join :: "string \<Rightarrow> string \<Rightarrow> string" where
  "os_path_join a b =
     (if take 1 b = ''/'' then b
      else if a = [] \<or> last a = CHR ''/'' then a @ b
      else a @ ''/'' @ b)"

fun os_walk :: "string \<Rightarrow> directory \<Rightarrow> (string \<times> string list \<times> string list) list" where
  "os_walk dirpath (Directory nondirs subs) =
     (dirpath, map fst subs, nondirs) #
     concat (map (\<lambda>sub. os_walk (os_path_join dirpath (fst sub)) (snd sub)) subs)"

definition os_walk_path :: "kb_world \<Rightarrow> string \<Rightarrow> (string \<times> string list \<times> string list) list" where
  "os_walk_path w path = (case filesystem w path of None \<Rightarrow> [] | Some d \<Rightarrow> os_walk path d)"

text \<open>
  \<open>s3_client.upload_file(Filename, Bucket, Key)\<close>: on success the object \<open>(Bucket, Key)\<close>
  holds the content of the local file, which the model names by its path.
\<close>

definition upload_file ::
  "kb_world \<Rightarrow> string \<Rightarrow> string \<Rightarrow> string \<Rightarrow> (exception + unit) \<times> kb_world" where
  "upload_file w filename bucket key =
     (let c = \<lparr>up_Filename = filename, up_Bucket = bucket, up_Key = key\<rparr>;
          w1 = w\<lparr>upload_calls := upload_calls w @ [c]\<rparr>
      in (case upload_outcome w (length (upload_calls w)) c of
            Some e \<Rightarrow> (Inl e, w1)
          | None \<Rightarrow> (Inr (), w1\<lparr>objects := (objects w1)((bucket, key) \<mapsto> filename)\<rparr>)))"

fun upload_files ::
  "kb_world \<Rightarrow> string \<Rightarrow> string \<Rightarrow> string list \<Rightarrow> (exception + unit) \<times> kb_world" where
  "upload_files w bucket_name root [] = (Inr (), w)"
| "upload_files w bucket_name root (file # files) =
     (let file_to_upload = os_path_join root file;
          w1 = py_print w (''uploading file '' @ file_to_upload @ '' to '' @ bucket_name)
      in (case upload_file w1 file_to_upload bucket_name file of
            (Inl e, w2) \<Rightarrow> (Inl e, w2)
          | (Inr u, w2) \<Rightarrow> upload_files w2 bucket_name root files))"

fun upload_walk ::
  "kb_world \<Rightarrow> string \<Rightarrow> (string \<times> string list \<times> string list) list \<Rightarrow>
   (exception + unit) \<times> kb_world" where
  "upload_walk w bucket_name [] = (Inr (), w)"
| "upload_walk w bucket_name ((root, dirs, files) # rest) =
     (case upload_files w bucket_name root files of
        (Inl e, w1) \<Rightarrow> (Inl e, w1)
      | (Inr u, w1) \<Rightarrow> upload_walk w1 bucket_name rest)"

definition upload_directory ::
  "kb_world \<Rightarrow> string \<Rightarrow> string \<Rightarrow> (exception + unit) \<times> kb_world" where
  "upload_directory w path bucket_name = upload_walk w bucket_name (os_walk_path w path)"

text \<open>
  Every file under a directory tree, as the pair of the directory that holds it and its base
  name, in the order of the walk.
\<close>

fun files_under :: "string \<Rightarrow> directory \<Rightarrow> (string \<times> string) list" where
  "files_under dirpath (Directory nondirs subs) =
     map (Pair dirpath) nondirs @
     concat (map (\<lambda>sub. files_under (os_path_join dirpath (fst sub)) (snd sub)) subs)"

subsection \<open>What the functions send and leave behind\<close>

text \<open>
  The request \<open>create_s3_bucket\<close> builds for a bucket name and a region; the world after
  one pass of the inner loop of \<open>upload_directory\<close> whose upload succeeded; and the
  (directory, base name) pairs of a list of \<open>os.walk\<close> triples.
\<close>

definition create_bucket_request :: "string \<Rightarrow> string option \<Rightarrow> create_bucket_call" where
  "create_bucket_request bucket_name region =
     \<lparr>cb_client_region = region, cb_Bucket = bucket_name,
      cb_LocationConstraint =
        (if region = None \<or> region = Some ''us-east-1'' then None else region)\<rparr>"

definition upload_one :: "string \<Rightarrow> kb_world \<Rightarrow> string \<times> string \<Rightarrow> kb_world" where
  "upload_one bucket_name w entry =
     (let file_to_upload = os_path_join (fst entry) (snd entry)
      in w\<lparr>stdout := stdout w @ [''uploading file '' @ file_to_upload @ '' to '' @ bucket_name],
           upload_calls := upload_calls w @
             [\<lparr>up_Filename = file_to_upload, up_Bucket = bucket_name, up_Key = snd entry\<rparr>],
           objects := (objects w)((bucket_name, snd entry) \<mapsto> file_to_upload)\<rparr>)"

definition walk_files :: "(string \<times> string list \<times> string list) list \<Rightarrow> (string \<times> string) list" where
  "walk_files triples = concat (map (\<lambda>(root, dirs, files). map (Pair root) files) triples)"

section \<open>Vocabulary of the properties\<close>

text \<open>\<open>s.startswith(p)\<close>: the string begins with the given text.\<close>

definition startswith :: "string \<Rightarrow> string \<Rightarrow> bool" where
  "startswith s p = (take (length p) s = p)"

section \<open>Concrete worlds\<close>

text \<open>
  Providers, clocks and zones on which the properties below are run. The exception classes
  are those of \<open>duckduckgo_search.exceptions\<close>, where \<open>RatelimitException\<close> and
  \<open>TimeoutException\<close> derive from \<open>DuckDuckGoSearchException\<close>.
\<close>

definition ratelimit_exception :: exception where
  "ratelimit_exception =
     PyException ''RatelimitException'' [''DuckDuckGoSearchException''] ''202 Ratelimit'' None"

definition timeout_exception :: exception where
  "timeout_exception =
     PyException ''TimeoutException'' [''DuckDuckGoSearchException''] ''timed out'' None"

definition provider_exception :: exception where
  "provider_exception =
     PyException ''DuckDuckGoSearchException'' [] ''unexpected response'' None"

definition value_error :: exception where
  "value_error = PyException ''ValueError'' [] ''keywords is mandatory'' None"

definition ddgs_raising :: "exception \<Rightarrow> ddgs" where
  "ddgs_raising e = \<lparr>text_outcome = (\<lambda>n q. Inl e), text_calls = []\<rparr>"

text \<open>A provider that finds the given records and returns them up to the cap it is given.\<close>

definition ddgs_finding :: "search_record list \<Rightarrow> ddgs" where
  "ddgs_finding found =
     \<lparr>text_outcome =
        (\<lambda>n q. Inr (case q_max_results q of
                        None \<Rightarrow> found
                      | Some cap \<Rightarrow> if 0 < cap then take (nat cap) found else found)),
      text_calls = []\<rparr>"

definition cat_record :: "string \<Rightarrow> search_record" where
  "cat_record n =
     [(''title'', ''Cat '' @ n), (''href'', ''https://example.org/'' @ n),
      (''body'', ''About cats.'')]"

definition three_records :: "search_record list" where
  "three_records = [cat_record ''1'', cat_record ''2'', cat_record ''3'']"

definition four_records :: "search_record list" where
  "four_records = [cat_record ''1'', cat_record ''2'', cat_record ''3'', cat_record ''4'']"

text \<open>
  A clock read at 12:30:45.000123 UTC on 1 June 2025, and a database with one zone, one hour
  east of UTC before 23:00 UTC and on UTC after it.
\<close>

definition clock_reading :: datetime where
  "clock_reading =
     \<lparr>year = 2025, month = 6, day = 1, hour = 12, minute = 30, second = 45,
      microsecond = 123, utcoffset = 0\<rparr>"

definition one_hour_east :: tzinfo where
  "one_hour_east u =
     (if hour u < 23 then u\<lparr>hour := hour u + 1, utcoffset := 3600\<rparr> else u\<lparr>utcoffset := 0\<rparr>)"

definition zone_not_found :: "string \<Rightarrow> exception" where
  "zone_not_found key =
     PyException ''ZoneInfoNotFoundError'' [''KeyError'', ''LookupError'']
       (''No time zone found with key '' @ key) None"

definition example_env :: clock_env where
  "example_env =
     \<lparr>utcnow = clock_reading,
      zoneinfo_db = (\<lambda>key. if key = ''Etc/GMT-1'' then Inr one_hour_east
                            else Inl (zone_not_found key)),
      zoneinfo_lookups = []\<rparr>"

definition later_env :: clock_env where
  "later_env = example_env\<lparr>utcnow := clock_reading\<lparr>hour := 18, minute := 5\<rparr>\<rparr>"

definition no_zones_env :: clock_env where
  "no_zones_env =
     \<lparr>utcnow = clock_reading, zoneinfo_db = (\<lambda>key. Inl (zone_not_found key)),
      zoneinfo_lookups = []\<rparr>"

text \<open>
  Worlds of the knowledge-base notebook: a service that accepts everything, one whose
  \<open>create_bucket\<close> answers with a \<open>ClientError\<close>, one that cannot be reached, and a
  directory tree holding three files named \<open>policy.pdf\<close>.
\<close>

definition empty_world :: kb_world where
  "empty_world =
     \<lparr>filesystem = (\<lambda>p. None), client_outcome = (\<lambda>r. None),
      create_bucket_outcome = (\<lambda>n c. None), create_bucket_calls = [],
      upload_outcome = (\<lambda>n c. None), upload_calls = [], objects = (\<lambda>k. None),
      stdout = []\<rparr>"

definition bucket_taken :: exception where
  "bucket_taken =
     PyException ''ClientError'' []
       ''An error occurred (BucketAlreadyExists) when calling the CreateBucket operation''
       (Some ''The requested bucket name is not available.'')"

definition endpoint_error :: exception where
  "endpoint_error =
     PyException ''EndpointConnectionError'' [''ConnectionError'', ''BotoCoreError'']
       ''Could not connect to the endpoint URL'' None"

definition taken_world :: kb_world where
  "taken_world = empty_world\<lparr>create_bucket_outcome := (\<lambda>n c. Some bucket_taken)\<rparr>"

definition offline_world :: kb_world where
  "offline_world = empty_world\<lparr>create_bucket_outcome := (\<lambda>n c. Some endpoint_error)\<rparr>"

definition onboarding_tree :: directory where
  "onboarding_tree =
     Directory [''README.md'', ''policy.pdf'']
       [(''benefits'', Directory [''policy.pdf''] []),
        (''travel'', Directory [''policy.pdf'', ''rates.csv''] [])]"

definition onboarding_world :: kb_world where
  "onboarding_world =
     empty_world\<lparr>filesystem :=
       (\<lambda>p. if p = ''./onboarding_files'' then Some onboarding_tree else None)\<rparr>"

section \<open>Formatting and reading numbers\<close>

lemma digit_char_is_digit: "n < 10 \<Longrightarrow> is_digit (digit_char n)"
proof -
  assume "n < 10"
  then have "n \<in> {0,1,2,3,4,5,6,7,8,9}" by auto
  then show ?thesis
    by (auto simp: is_digit_def digit_char_def)
qed

lemma digit_value_digit_char: "n < 10 \<Longrightarrow> digit_value (digit_char n) = n"
proof -
  assume "n < 10"
  then have "n \<in> {0,1,2,3,4,5,6,7,8,9}" by auto
  then show ?thesis
    by (auto simp: digit_value_def digit_char_def)
qed

lemma dec_digits: "list_all is_digit (dec n)"
proof (induction n rule: dec.induct)
  case (1 n)
  show ?case
  proof (cases "n < 10")
    case True
    then show ?thesis by (simp add: dec.simps [of n] digit_char_is_digit)
  next
    case False
    with 1 show ?thesis by (simp add: dec.simps [of n] digit_char_is_digit)
  qed
qed

lemma nat_of_digits_snoc: "nat_of_digits (cs @ [c]) = nat_of_digits cs * 10 + digit_value c"
  by (simp add: nat_of_digits_def)

lemma nat_of_digits_dec: "nat_of_digits (dec n) = n"
proof (induction n rule: dec.induct)
  case (1 n)
  show ?case
  proof (cases "n < 10")
    case True
    then show ?thesis
      by (simp add: dec.simps [of n] nat_of_digits_def digit_value_digit_char)
  next
    case False
    with 1 show ?thesis
      by (simp add: dec.simps [of n] nat_of_digits_snoc digit_value_digit_char)
  qed
qed

lemma length_dec_le: "0 < w \<Longrightarrow> n < 10 ^ w \<Longrightarrow> length (dec n) \<le> w"
proof (induction n arbitrary: w rule: dec.induct)
  case (1 n)
  show ?case
  proof (cases "n < 10")
    case True
    with 1 show ?thesis by (simp add: dec.simps [of n])
  next
    case False
    obtain v where w: "w = Suc v" using 1(2) by (cases w) auto
    have "v \<noteq> 0" using False 1(3) w by (cases v) auto
    moreover have "n div 10 < 10 ^ v" using 1(3) w by (simp add: less_mult_imp_div_less mult.commute)
    ultimately have "length (dec (n div 10)) \<le> v" using 1(1) [of v] False by simp
    then show ?thesis using False w by (simp add: dec.simps [of n])
  qed
qed

lemma digit_value_zero: "digit_value CHR ''0'' = 0"
  by (simp add: digit_value_def)

lemma is_digit_zero: "is_digit CHR ''0''"
  by (simp add: is_digit_def)

lemma foldl_zeros:
  "foldl (\<lambda>acc c. acc * 10 + digit_value c) 0 (replicate k CHR ''0'') = 0"
  by (induction k) (simp_all add: digit_value_zero)

lemma nat_of_digits_zeros: "nat_of_digits (replicate k CHR ''0'' @ cs) = nat_of_digits cs"
  by (simp add: nat_of_digits_def foldl_zeros)

lemma zeros_digits: "list_all is_digit (replicate k CHR ''0'')"
  by (induction k) (simp_all add: is_digit_zero)

lemma zpad_props:
  assumes "0 < w" and "n < 10 ^ w"
  shows "length (zpad w n) = w" and "list_all is_digit (zpad w n)" and "nat_of_digits (zpad w n) = n"
proof -
  show "length (zpad w n) = w" using length_dec_le [OF assms] by (simp add: zpad_def)
  show "list_all is_digit (zpad w n)" by (simp add: zpad_def dec_digits zeros_digits)
  show "nat_of_digits (zpad w n) = n" by (simp add: zpad_def nat_of_digits_zeros nat_of_digits_dec)
qed

lemma read_number_zpad:
  assumes "0 < w" and "n < 10 ^ w"
  shows "read_number w (zpad w n @ rest) = Some (n, rest)"
  using zpad_props [OF assms] by (simp add: read_number_def)


lemma read_number_2: "n < 100 \<Longrightarrow> read_number 2 (zpad 2 n @ rest) = Some (n, rest)"
  by (rule read_number_zpad) simp_all

lemma read_number_4: "n < 10000 \<Longrightarrow> read_number 4 (zpad 4 n @ rest) = Some (n, rest)"
  by (rule read_number_zpad) simp_all

lemma read_number_6: "n < 1000000 \<Longrightarrow> read_number 6 (zpad 6 n @ rest) = Some (n, rest)"
  by (rule read_number_zpad) simp_all

lemma read_number_2_end: "n < 100 \<Longrightarrow> read_number 2 (zpad 2 n) = Some (n, [])"
  using read_number_2 [of n "[]"] by simp

section \<open>Reading back what isoformat prints\<close>

lemma hms_recompose:
  fixes a :: nat
  shows "a div 3600 * 3600 + (a mod 3600) div 60 * 60 + a mod 60 = a"
proof -
  have "(a mod 3600) mod 60 = a mod 60"
    by (rule mod_mod_cancel) simp
  then have e1: "(a mod 3600) div 60 * 60 + a mod 60 = a mod 3600"
    using div_mult_mod_eq [of "a mod 3600" 60] by (simp only:)
  have e2: "a div 3600 * 3600 + a mod 3600 = a"
    by (rule div_mult_mod_eq)
  show ?thesis
    by (simp only: add.assoc e1 e2)
qed

lemma hours_bound:
  fixes a :: nat
  assumes "a < 86400"
  shows "a div 3600 < 100"
proof -
  have "a < 100 * 3600" using assms by simp
  then show ?thesis by (rule less_mult_imp_div_less)
qed

lemma fromisoformat_isoformat:
  assumes "valid_datetime d"
  shows "fromisoformat (isoformat d) = Some d"
proof -
  from assms have r: "year d < 10000" "month d < 100" "day d < 100" "hour d < 100"
    "minute d < 100" "second d < 100" "microsecond d < 1000000"
    "- 86400 < utcoffset d" "utcoffset d < 86400"
    by (auto simp: valid_datetime_def days_in_month_def split: if_splits)
  define a where "a = nat \<bar>utcoffset d\<bar>"
  define oh where "oh = a div 3600"
  define om where "om = (a mod 3600) div 60"
  define os where "os = a mod 60"
  define sg where "sg = (if utcoffset d < 0 then - 1 else (1::int))"
  have a: "a < 86400" using r(8,9) by (simp add: a_def)
  have o1: "oh < 100" unfolding oh_def using a by (rule hours_bound)
  have o2: "om < 60" by (simp add: om_def)
  have o3: "os < 60" by (simp add: os_def)
  have "oh * 3600 + om * 60 + os = a"
    unfolding oh_def om_def os_def by (rule hms_recompose)
  then have o4: "sg * int (oh * 3600 + om * 60 + os) = utcoffset d"
    by (simp add: sg_def a_def)
  have fo: "format_offset (utcoffset d) =
      (if utcoffset d < 0 then ''-'' else ''+'') @ zpad 2 oh @ '':'' @ zpad 2 om @
        (if os \<noteq> 0 then '':'' @ zpad 2 os else [])"
    by (simp add: format_offset_def Let_def a_def oh_def om_def os_def)
  have om100: "om < 100" using o2 by simp
  have os100: "os < 100" using o3 by simp
  have upd: "d\<lparr>utcoffset := x\<rparr> =
      \<lparr>year = year d, month = month d, day = day d, hour = hour d, minute = minute d,
       second = second d, microsecond = microsecond d, utcoffset = x\<rparr>" for x
    by (cases d) simp
  have step: "fromisoformat (isoformat d) =
      (let d' = d\<lparr>utcoffset := sg * int (oh * 3600 + om * 60 + os)\<rparr>
       in if valid_datetime d' then Some d' else None)"
    unfolding fromisoformat_def isoformat_def format_time_def fo
    by (simp add: read_number_4 read_number_2 read_number_6 read_number_2_end r o1 o2 o3 om100 os100
        read_char_def read_fraction_def read_sign_def read_offset_seconds_def sg_def Let_def upd)
  show ?thesis
    unfolding step o4 using assms by simp
qed

section \<open>Facts about websearch\<close>

lemma websearch_calls:
  "text_calls (snd (websearch w k r m)) =
   text_calls w @ [\<lparr>q_keywords = k, q_region = r, q_max_results = m\<rparr>]"
  by (simp add: websearch_def DDGS_text_def split: sum.splits)

lemma websearch_on_error:
  assumes "text_outcome w (length (text_calls w)) \<lparr>q_keywords = k, q_region = r, q_max_results = m\<rparr> = Inl e"
  shows "fst (websearch w k r m) =
     (if isinstance e ''RatelimitException''
      then Inr (Str ''RatelimitException: Please try again after a short delay.'')
      else if isinstance e ''DuckDuckGoSearchException''
      then Inr (Str (''DuckDuckGoSearchException: '' @ str_of e))
      else Inr (Str (''Exception: '' @ str_of e)))"
  using assms by (simp add: websearch_def DDGS_text_def isinstance_def)

lemma websearch_on_results:
  assumes "text_outcome w (length (text_calls w)) \<lparr>q_keywords = k, q_region = r, q_max_results = m\<rparr> = Inr rs"
  shows "fst (websearch w k r m) = Inr (if rs \<noteq> [] then Records rs else Str ''No results found.'')"
  using assms by (simp add: websearch_def DDGS_text_def)

lemma websearch_total: "\<exists>v. fst (websearch w k r m) = Inr v"
proof (cases "text_outcome w (length (text_calls w)) \<lparr>q_keywords = k, q_region = r, q_max_results = m\<rparr>")
  case (Inl e)
  then show ?thesis by (simp add: websearch_on_error)
next
  case (Inr rs)
  then show ?thesis by (simp add: websearch_on_results)
qed

section \<open>Facts about current_time\<close>

lemma upper_UTC: "upper ''UTC'' = ''UTC''"
  by (simp add: upper_def upper_char_def)

lemma current_time_utc:
  "upper t = ''UTC'' \<Longrightarrow> fst (current_time env t) = Inr (isoformat (datetime_now env tz_utc))"
  by (simp add: current_time_def)

lemma current_time_zone:
  "upper t \<noteq> ''UTC'' \<Longrightarrow> zoneinfo_db env t = Inr z \<Longrightarrow>
   fst (current_time env t) = Inr (isoformat (datetime_now env z))"
  by (simp add: current_time_def ZoneInfo_def datetime_now_def)

lemma current_time_raises:
  "upper t \<noteq> ''UTC'' \<Longrightarrow> zoneinfo_db env t = Inl e \<Longrightarrow> fst (current_time env t) = Inl e"
  by (simp add: current_time_def ZoneInfo_def)

lemma current_time_same_reading:
  "zoneinfo_db env1 = zoneinfo_db env2 \<and> utcnow env1 = utcnow env2 \<Longrightarrow>
   fst (current_time env1 t) = fst (current_time env2 t)"
  by (simp add: current_time_def ZoneInfo_def datetime_now_def split: sum.splits)

lemma current_time_utc_no_lookup: "upper t = ''UTC'' \<Longrightarrow> snd (current_time env t) = env"
  by (simp add: current_time_def)

lemma current_time_zone_lookup:
  "upper t \<noteq> ''UTC'' \<Longrightarrow>
   snd (current_time env t) = env\<lparr>zoneinfo_lookups := zoneinfo_lookups env @ [t]\<rparr>"
  by (simp add: current_time_def ZoneInfo_def split: sum.splits)

lemma valid_clock_reading: "valid_datetime clock_reading"
  by (simp add: valid_datetime_def clock_reading_def days_in_month_def is_leap_def)

lemma replicate_numeral: "replicate (numeral k) x = x # replicate (pred_numeral k) x"
  by (simp add: numeral_eq_Suc)

lemmas isoformat_eval =
  isoformat_def format_time_def format_offset_def zpad_def dec.simps digit_char_def
  replicate_numeral

lemma example_lookup: "zoneinfo_db example_env ''Etc/GMT-1'' = Inr one_hour_east"
  by (simp add: example_env_def)

lemma example_now_east:
  "datetime_now example_env one_hour_east = clock_reading\<lparr>hour := 13, utcoffset := 3600\<rparr>"
  by (simp add: datetime_now_def example_env_def one_hour_east_def clock_reading_def)

lemma example_now_utc: "datetime_now example_env tz_utc = clock_reading"
  by (simp add: datetime_now_def example_env_def tz_utc_def clock_reading_def)

lemma upper_gmt1: "upper ''Etc/GMT-1'' \<noteq> ''UTC''"
  by (simp add: upper_def)

lemma example_time_east:
  "fst (current_time example_env ''Etc/GMT-1'') = Inr ''2025-06-01T13:30:45.000123+01:00''"
  by (simp add: current_time_zone [OF upper_gmt1 example_lookup] example_now_east
      clock_reading_def isoformat_eval)

lemma example_time_utc:
  "fst (current_time example_env ''UTC'') = Inr ''2025-06-01T12:30:45.000123+00:00''"
  by (simp add: current_time_utc [OF upper_UTC] example_now_utc clock_reading_def isoformat_eval)

lemma upper_utc_lower: "upper ''utc'' = ''UTC''"
  by (simp add: upper_def upper_char_def)

lemma upper_utc_mixed: "upper ''Utc'' = ''UTC''"
  by (simp add: upper_def upper_char_def)

lemma later_lookup: "zoneinfo_db example_env = zoneinfo_db later_env"
  by (simp add: later_env_def)

lemma later_time_east:
  "fst (current_time later_env ''Etc/GMT-1'') = Inr ''2025-06-01T19:05:45.000123+01:00''"
proof -
  have l: "zoneinfo_db later_env ''Etc/GMT-1'' = Inr one_hour_east"
    by (simp add: later_env_def example_env_def)
  show ?thesis
    unfolding current_time_zone [OF upper_gmt1 l]
    by (simp add: datetime_now_def later_env_def example_env_def one_hour_east_def
        clock_reading_def isoformat_eval)
qed

section \<open>Facts about create_s3_bucket\<close>

lemma create_s3_bucket_calls:
  assumes "client_outcome w region = None"
  shows "create_bucket_calls (snd (create_s3_bucket w b region)) =
         create_bucket_calls w @ [create_bucket_request b region]"
  using assms
  by (simp add: create_s3_bucket_def boto3_client_def create_bucket_def create_bucket_request_def
      py_print_def Let_def split: option.splits)

lemma create_s3_bucket_result:
  assumes "client_outcome w region = None"
  shows "fst (create_s3_bucket w b region) =
     (case create_bucket_outcome w (length (create_bucket_calls w)) (create_bucket_request b region) of
        None \<Rightarrow> Inr ()
      | Some e \<Rightarrow>
          if isinstance e ''ClientError''
          then (case response_message e of Some msg \<Rightarrow> Inr () | None \<Rightarrow> Inl key_error)
          else Inl e)"
  using assms
  by (simp add: create_s3_bucket_def boto3_client_def create_bucket_def create_bucket_request_def
      Let_def split: option.splits)

lemma create_s3_bucket_stdout:
  assumes "client_outcome w region = None"
  shows "stdout (snd (create_s3_bucket w b region)) =
     (case create_bucket_outcome w (length (create_bucket_calls w)) (create_bucket_request b region) of
        None \<Rightarrow>
          stdout w @ [check_mark @ '' Bucket '' @ [CHR 0x27] @ b @ [CHR 0x27] @
                      '' created successfully.'']
      | Some e \<Rightarrow>
          if isinstance e ''ClientError''
          then (case response_message e of
                  Some msg \<Rightarrow> stdout w @ [cross_mark @ '' Failed to create bucket: '' @ msg]
                | None \<Rightarrow> stdout w)
          else stdout w)"
  using assms
  by (simp add: create_s3_bucket_def boto3_client_def create_bucket_def create_bucket_request_def
      py_print_def Let_def split: option.splits)

lemma create_s3_bucket_client_raises:
  assumes "client_outcome w region = Some e"
  shows "create_s3_bucket w b region = (Inl e, w)"
  using assms by (simp add: create_s3_bucket_def boto3_client_def)

section \<open>Facts about upload_directory\<close>

lemma upload_one_outcome: "upload_outcome (upload_one b w entry) = upload_outcome w"
  by (simp add: upload_one_def Let_def)

lemma foldl_upload_one_outcome: "upload_outcome (foldl (upload_one b) w entries) = upload_outcome w"
  by (induction entries arbitrary: w) (simp_all add: upload_one_outcome)

lemma upload_file_succeeds:
  assumes "\<forall>n c. upload_outcome w n c = None"
  shows "upload_file (py_print w (''uploading file '' @ os_path_join root file @ '' to '' @ b))
           (os_path_join root file) b file = (Inr (), upload_one b w (root, file))"
  using assms by (simp add: upload_file_def py_print_def upload_one_def Let_def)

lemma upload_files_succeed:
  assumes "\<forall>n c. upload_outcome w n c = None"
  shows "upload_files w b root files = (Inr (), foldl (upload_one b) w (map (Pair root) files))"
  using assms
proof (induction files arbitrary: w)
  case Nil
  show ?case by simp
next
  case (Cons f fs)
  have ok: "\<forall>n c. upload_outcome (upload_one b w (root, f)) n c = None"
    using Cons.prems by (simp add: upload_one_outcome)
  show ?case
    by (simp only: upload_files.simps Let_def upload_file_succeeds [OF Cons.prems] prod.case
        sum.case Cons.IH [OF ok] list.map foldl_Cons)
qed

lemma upload_walk_succeeds:
  assumes "\<forall>n c. upload_outcome w n c = None"
  shows "upload_walk w b triples = (Inr (), foldl (upload_one b) w (walk_files triples))"
  using assms
proof (induction triples arbitrary: w)
  case Nil
  show ?case by (simp add: walk_files_def)
next
  case (Cons t triples)
  obtain root dirs files where t: "t = (root, dirs, files)" by (cases t)
  have ok: "\<forall>n c. upload_outcome (foldl (upload_one b) w (map (Pair root) files)) n c = None"
    using Cons.prems by (simp add: foldl_upload_one_outcome)
  show ?case
    unfolding t
    by (simp add: upload_files_succeed [OF Cons.prems] Cons.IH [OF ok] walk_files_def)
qed

lemma walk_files_Cons:
  "walk_files ((root, dirs, files) # triples) = map (Pair root) files @ walk_files triples"
  by (simp add: walk_files_def)

lemma walk_files_concat: "walk_files (concat xss) = concat (map walk_files xss)"
  by (induction xss) (simp_all add: walk_files_def)

lemma walk_files_os_walk: "walk_files (os_walk p d) = files_under p d"
proof (induction p d rule: os_walk.induct)
  case (1 dirpath nondirs subs)
  have "map (\<lambda>sub. walk_files (os_walk (os_path_join dirpath (fst sub)) (snd sub))) subs =
        map (\<lambda>sub. files_under (os_path_join dirpath (fst sub)) (snd sub)) subs"
    using 1 by simp
  then show ?case
    by (simp only: os_walk.simps files_under.simps walk_files_Cons walk_files_concat map_map
        comp_def)
qed

lemma foldl_upload_one_calls:
  "upload_calls (foldl (upload_one b) w entries) =
   upload_calls w @
   map (\<lambda>entry. \<lparr>up_Filename = os_path_join (fst entry) (snd entry), up_Bucket = b,
                  up_Key = snd entry\<rparr>) entries"
  by (induction entries arbitrary: w) (simp_all add: upload_one_def Let_def)

lemma objects_upload_one:
  "objects (upload_one b w entry) (b, k) =
   (if k = snd entry then Some (os_path_join (fst entry) (snd entry)) else objects w (b, k))"
  by (simp add: upload_one_def Let_def)

lemma foldl_upload_one_objects:
  "objects (foldl (upload_one b) w entries) (b, k) =
   (case map_of (rev (map (\<lambda>entry. (snd entry, os_path_join (fst entry) (snd entry))) entries)) k of
      Some p \<Rightarrow> Some p
    | None \<Rightarrow> objects w (b, k))"
proof (induction entries arbitrary: w rule: rev_induct)
  case Nil
  show ?case by simp
next
  case (snoc entry entries)
  show ?case by (simp add: objects_upload_one snoc.IH)
qed

lemma map_of_rev_last:
  assumes "j < length ps" and "\<forall>k. j < k \<and> k < length ps \<longrightarrow> fst (ps ! k) \<noteq> fst (ps ! j)"
  shows "map_of (rev ps) (fst (ps ! j)) = Some (snd (ps ! j))"
  using assms
proof (induction ps rule: rev_induct)
  case Nil
  then show ?case by simp
next
  case (snoc p ps)
  show ?case
  proof (cases "j = length ps")
    case True
    then show ?thesis by simp
  next
    case False
    with snoc.prems(1) have j: "j < length ps" by simp
    have "fst ((ps @ [p]) ! length ps) \<noteq> fst ((ps @ [p]) ! j)"
      using snoc.prems(2) [rule_format, of "length ps"] j by simp
    then have ne: "fst p \<noteq> fst (ps ! j)" using j by (simp add: nth_append)
    have "\<forall>k. j < k \<and> k < length ps \<longrightarrow> fst (ps ! k) \<noteq> fst (ps ! j)"
    proof (intro allI impI)
      fix k assume k: "j < k \<and> k < length ps"
      then have "fst ((ps @ [p]) ! k) \<noteq> fst ((ps @ [p]) ! j)"
        using snoc.prems(2) [rule_format, of k] by simp
      then show "fst (ps ! k) \<noteq> fst (ps ! j)" using k j by (simp add: nth_append)
    qed
    then have "map_of (rev ps) (fst (ps ! j)) = Some (snd (ps ! j))"
      using snoc.IH j by simp
    then show ?thesis using ne j by (simp add: nth_append)
  qed
qed


lemma upload_directory_succeeds:
  assumes "filesystem w path = Some tree" and "\<forall>n c. upload_outcome w n c = None"
  shows "upload_directory w path b = (Inr (), foldl (upload_one b) w (files_under path tree))"
  by (simp add: upload_directory_def os_walk_path_def assms(1) upload_walk_succeeds [OF assms(2)]
      walk_files_os_walk)

lemma onboarding_files:
  "files_under ''./onboarding_files'' onboarding_tree =
     [(''./onboarding_files'', ''README.md''),
      (''./onboarding_files'', ''policy.pdf''),
      (''./onboarding_files/benefits'', ''policy.pdf''),
      (''./onboarding_files/travel'', ''policy.pdf''),
      (''./onboarding_files/travel'', ''rates.csv'')]"
  by (simp add: onboarding_tree_def os_path_join_def)

section \<open>Properties\<close>

text \<open>
  C1 (as amended). \<open>current_weather\<close> and \<open>websearch\<close> return a value on every input.
  \<open>current_time\<close> returns a string when the name upper-cases to "UTC" or the time zone
  database finds it; for any other name the exception of the lookup reaches the caller
  unchanged.
\<close>

theorem tools_return_unless_zone_lookup_raises:
  "(\<exists>v. current_weather city = Inr v) \<and>
   (\<exists>v. fst (websearch w k r m) = Inr v) \<and>
   (upper t = ''UTC'' \<or> (\<exists>z. zoneinfo_db env t = Inr z) \<longrightarrow>
      (\<exists>s. fst (current_time env t) = Inr s)) \<and>
   (upper t \<noteq> ''UTC'' \<and> zoneinfo_db env t = Inl e \<longrightarrow> fst (current_time env t) = Inl e)"
proof (intro conjI impI)
  show "\<exists>v. current_weather city = Inr v"
    by (simp add: current_weather_def)
next
  show "\<exists>v. fst (websearch w k r m) = Inr v"
    by (rule websearch_total)
next
  assume "upper t = ''UTC'' \<or> (\<exists>z. zoneinfo_db env t = Inr z)"
  then show "\<exists>s. fst (current_time env t) = Inr s"
    by (cases "upper t = ''UTC''") (auto simp: current_time_utc current_time_zone)
next
  assume "upper t \<noteq> ''UTC'' \<and> zoneinfo_db env t = Inl e"
  then show "fst (current_time env t) = Inl e"
    by (simp add: current_time_raises)
qed

theorem tools_return_unless_zone_lookup_raises_witness:
  "current_weather ''Seattle'' = Inr ''sunny'' \<and>
   fst (websearch (ddgs_raising timeout_exception) ''cats'' ''us-en'' None) =
     Inr (Str ''DuckDuckGoSearchException: timed out'') \<and>
   fst (current_time example_env ''utc'') = Inr ''2025-06-01T12:30:45.000123+00:00'' \<and>
   fst (current_time example_env ''Etc/GMT-1'') = Inr ''2025-06-01T13:30:45.000123+01:00'' \<and>
   fst (current_time example_env ''Europe/Atlantis'') = Inl (zone_not_found ''Europe/Atlantis'')"
proof -
  have a: "upper ''Europe/Atlantis'' \<noteq> ''UTC'' \<and>
      zoneinfo_db example_env ''Europe/Atlantis'' = Inl (zone_not_found ''Europe/Atlantis'')"
    by (simp add: upper_def example_env_def)
  have b: "fst (current_time example_env ''utc'') = Inr ''2025-06-01T12:30:45.000123+00:00''"
    by (simp add: current_time_utc [OF upper_utc_lower] example_now_utc clock_reading_def
        isoformat_eval)
  have c: "fst (websearch (ddgs_raising timeout_exception) ''cats'' ''us-en'' None) =
      Inr (Str ''DuckDuckGoSearchException: timed out'')"
    by (simp add: websearch_def DDGS_text_def ddgs_raising_def timeout_exception_def
        isinstance_def)
  show ?thesis
    using tools_return_unless_zone_lookup_raises
      [of "''Seattle''" "ddgs_raising timeout_exception" "''cats''" "''us-en''" None
          "''Europe/Atlantis''" example_env "zone_not_found ''Europe/Atlantis''"]
      tools_return_unless_zone_lookup_raises
      [of "''Seattle''" "ddgs_raising timeout_exception" "''cats''" "''us-en''" None
          "''Etc/GMT-1''" example_env]
      tools_return_unless_zone_lookup_raises
      [of "''Seattle''" "ddgs_raising timeout_exception" "''cats''" "''us-en''" None
          "''utc''" example_env]
      a example_lookup upper_utc_lower
    by (simp add: b c example_time_east current_weather_def)
qed

text \<open>
  C1 as stated, that \<open>current_time\<close> returns a string for every name, fails: a name the
  database does not know makes \<open>ZoneInfo\<close> raise, and nothing catches it.
\<close>

theorem current_time_unknown_zone_raises:
  "fst (current_time example_env ''Mars/Olympus'') = Inl (zone_not_found ''Mars/Olympus'') \<and>
   (\<nexists>s. fst (current_time example_env ''Mars/Olympus'') = Inr s)"
  by (simp add: current_time_def upper_def ZoneInfo_def example_env_def)

text \<open>
  C2. When the search call inside \<open>websearch\<close> raises \<open>RatelimitException\<close> the function
  returns a string beginning with "RatelimitException"; when it raises another
  \<open>DuckDuckGoSearchException\<close>, a string beginning with "DuckDuckGoSearchException"; when it
  raises any other exception, a string beginning with "Exception". In each case the search
  is attempted exactly once and the string is returned as an ordinary result.
\<close>

theorem websearch_error_strings:
  assumes "text_outcome w (length (text_calls w))
             \<lparr>q_keywords = k, q_region = r, q_max_results = m\<rparr> = Inl e"
  shows "(isinstance e ''RatelimitException'' \<longrightarrow>
            fst (websearch w k r m) =
              Inr (Str ''RatelimitException: Please try again after a short delay.'')) \<and>
         (\<not> isinstance e ''RatelimitException'' \<and> isinstance e ''DuckDuckGoSearchException'' \<longrightarrow>
            fst (websearch w k r m) = Inr (Str (''DuckDuckGoSearchException: '' @ str_of e))) \<and>
         (\<not> isinstance e ''RatelimitException'' \<and> \<not> isinstance e ''DuckDuckGoSearchException'' \<longrightarrow>
            fst (websearch w k r m) = Inr (Str (''Exception: '' @ str_of e))) \<and>
         (\<exists>s. fst (websearch w k r m) = Inr (Str s) \<and>
            startswith s
              (if isinstance e ''RatelimitException'' then ''RatelimitException''
               else if isinstance e ''DuckDuckGoSearchException'' then ''DuckDuckGoSearchException''
               else ''Exception'')) \<and>
         text_calls (snd (websearch w k r m)) =
           text_calls w @ [\<lparr>q_keywords = k, q_region = r, q_max_results = m\<rparr>]"
  by (simp add: websearch_on_error [OF assms] websearch_calls startswith_def)

theorem websearch_error_strings_witness:
  "fst (websearch (ddgs_raising ratelimit_exception) ''cats'' ''us-en'' (Some 3)) =
     Inr (Str ''RatelimitException: Please try again after a short delay.'') \<and>
   fst (websearch (ddgs_raising provider_exception) ''cats'' ''us-en'' (Some 3)) =
     Inr (Str ''DuckDuckGoSearchException: unexpected response'') \<and>
   fst (websearch (ddgs_raising timeout_exception) ''cats'' ''us-en'' (Some 3)) =
     Inr (Str ''DuckDuckGoSearchException: timed out'') \<and>
   fst (websearch (ddgs_raising value_error) ''cats'' ''us-en'' (Some 3)) =
     Inr (Str ''Exception: keywords is mandatory'') \<and>
   text_calls (snd (websearch (ddgs_raising value_error) ''cats'' ''us-en'' (Some 3))) =
     [\<lparr>q_keywords = ''cats'', q_region = ''us-en'', q_max_results = Some 3\<rparr>]"
proof -
  have h: "text_outcome (ddgs_raising e) (length (text_calls (ddgs_raising e)))
             \<lparr>q_keywords = ''cats'', q_region = ''us-en'', q_max_results = Some 3\<rparr> = Inl e" for e
    by (simp add: ddgs_raising_def)
  show ?thesis
    using websearch_error_strings [OF h [of ratelimit_exception]]
      websearch_error_strings [OF h [of provider_exception]]
      websearch_error_strings [OF h [of timeout_exception]]
      websearch_error_strings [OF h [of value_error]]
    by (simp add: isinstance_def ratelimit_exception_def provider_exception_def
        timeout_exception_def value_error_def ddgs_raising_def)
qed

text \<open>
  C3. For \<open>websearch(keywords="cats", max_results=3)\<close> against a provider that keeps to
  the cap it is given, when the search returns, the function returns the search's records,
  at most 3 of them, or the literal "No results found." when the search found none. The
  query reaches the provider with \<open>max_results = 3\<close> and the default region, and what the
  provider returns is passed on untouched.
\<close>

theorem websearch_cats_at_most_three:
  assumes "honours_max_results w"
    and "text_outcome w (length (text_calls w))
             \<lparr>q_keywords = ''cats'', q_region = websearch_region_default,
              q_max_results = Some 3\<rparr> = Inr rs"
  shows "(rs = [] \<longrightarrow>
            fst (websearch w ''cats'' websearch_region_default (Some 3)) =
              Inr (Str ''No results found.'')) \<and>
         (rs \<noteq> [] \<longrightarrow>
            fst (websearch w ''cats'' websearch_region_default (Some 3)) = Inr (Records rs) \<and>
            length rs \<le> 3) \<and>
         text_calls (snd (websearch w ''cats'' websearch_region_default (Some 3))) =
           text_calls w @
           [\<lparr>q_keywords = ''cats'', q_region = ''us-en'', q_max_results = Some 3\<rparr>]"
proof -
  have r: "fst (websearch w ''cats'' websearch_region_default (Some 3)) =
      Inr (if rs \<noteq> [] then Records rs else Str ''No results found.'')"
    by (rule websearch_on_results [OF assms(2)])
  have "int (length rs) \<le> 3"
    using assms(1) [unfolded honours_max_results_def, rule_format,
        of "length (text_calls w)"
           "\<lparr>q_keywords = ''cats'', q_region = websearch_region_default,
             q_max_results = Some 3\<rparr>" rs 3]
      assms(2)
    by simp
  then have l: "length rs \<le> 3" by simp
  show ?thesis
    unfolding r using l by (simp add: websearch_calls websearch_region_default_def)
qed

theorem websearch_cats_at_most_three_witness:
  "fst (websearch (ddgs_finding four_records) ''cats'' websearch_region_default (Some 3)) =
     Inr (Records three_records) \<and>
   length three_records \<le> 3 \<and>
   fst (websearch (ddgs_finding []) ''cats'' websearch_region_default (Some 3)) =
     Inr (Str ''No results found.'') \<and>
   text_calls (snd (websearch (ddgs_finding []) ''cats'' websearch_region_default (Some 3))) =
     [\<lparr>q_keywords = ''cats'', q_region = ''us-en'', q_max_results = Some 3\<rparr>]"
proof -
  have c: "honours_max_results (ddgs_finding found)" for found
    by (auto simp: honours_max_results_def ddgs_finding_def)
  have h4: "text_outcome (ddgs_finding four_records)
             (length (text_calls (ddgs_finding four_records)))
             \<lparr>q_keywords = ''cats'', q_region = websearch_region_default,
              q_max_results = Some 3\<rparr> = Inr three_records"
    by (simp add: ddgs_finding_def four_records_def three_records_def)
  have h0: "text_outcome (ddgs_finding [])
             (length (text_calls (ddgs_finding [])))
             \<lparr>q_keywords = ''cats'', q_region = websearch_region_default,
              q_max_results = Some 3\<rparr> = Inr []"
    by (simp add: ddgs_finding_def)
  have e: "text_calls (ddgs_finding []) = []"
    by (simp add: ddgs_finding_def)
  show ?thesis
    using websearch_cats_at_most_three [OF c h4] websearch_cats_at_most_three [OF c h0]
    by (simp add: three_records_def e)
qed

text \<open>
  C4. For a valid time zone identifier (one the database finds), \<open>current_time\<close> returns a
  string that reads back as an ISO timestamp: the datetime of the clock's reading in that
  zone. For "UTC" it is the clock's reading itself with offset zero. The datetimes involved
  are in the range every \<open>datetime\<close> object has.
\<close>

theorem current_time_iso_timestamp:
  "(zoneinfo_db env t = Inr z \<and>
    valid_datetime (datetime_now env (if upper t = ''UTC'' then tz_utc else z)) \<longrightarrow>
      (\<exists>s. fst (current_time env t) = Inr s \<and>
           fromisoformat s =
             Some (datetime_now env (if upper t = ''UTC'' then tz_utc else z)))) \<and>
   (valid_datetime (datetime_now env tz_utc) \<longrightarrow>
      (\<exists>s. fst (current_time env ''UTC'') = Inr s \<and>
           fromisoformat s = Some ((utcnow env)\<lparr>utcoffset := 0\<rparr>)))"
proof (intro conjI impI)
  assume h: "zoneinfo_db env t = Inr z \<and>
    valid_datetime (datetime_now env (if upper t = ''UTC'' then tz_utc else z))"
  show "\<exists>s. fst (current_time env t) = Inr s \<and>
           fromisoformat s = Some (datetime_now env (if upper t = ''UTC'' then tz_utc else z))"
  proof (cases "upper t = ''UTC''")
    case True
    with h show ?thesis by (simp add: current_time_utc fromisoformat_isoformat)
  next
    case False
    with h show ?thesis by (simp add: current_time_zone fromisoformat_isoformat)
  qed
next
  assume h: "valid_datetime (datetime_now env tz_utc)"
  have "fst (current_time env ''UTC'') = Inr (isoformat (datetime_now env tz_utc))"
    by (rule current_time_utc) (rule upper_UTC)
  moreover have "datetime_now env tz_utc = (utcnow env)\<lparr>utcoffset := 0\<rparr>"
    by (simp add: datetime_now_def tz_utc_def)
  ultimately show "\<exists>s. fst (current_time env ''UTC'') = Inr s \<and>
           fromisoformat s = Some ((utcnow env)\<lparr>utcoffset := 0\<rparr>)"
    using h fromisoformat_isoformat [of "datetime_now env tz_utc"] by simp
qed

theorem current_time_iso_timestamp_witness:
  "fst (current_time example_env ''Etc/GMT-1'') = Inr ''2025-06-01T13:30:45.000123+01:00'' \<and>
   fromisoformat ''2025-06-01T13:30:45.000123+01:00'' =
     Some (clock_reading\<lparr>hour := 13, utcoffset := 3600\<rparr>) \<and>
   fst (current_time example_env ''UTC'') = Inr ''2025-06-01T12:30:45.000123+00:00'' \<and>
   fromisoformat ''2025-06-01T12:30:45.000123+00:00'' = Some clock_reading"
proof -
  have v1: "valid_datetime (datetime_now example_env
      (if upper ''Etc/GMT-1'' = ''UTC'' then tz_utc else one_hour_east))"
    by (simp add: upper_gmt1 example_now_east valid_datetime_def clock_reading_def
        days_in_month_def is_leap_def)
  have v2: "valid_datetime (datetime_now example_env tz_utc)"
    by (simp add: example_now_utc valid_clock_reading)
  have u: "utcnow example_env\<lparr>utcoffset := 0\<rparr> = clock_reading"
    by (simp add: example_env_def clock_reading_def)
  show ?thesis
    using current_time_iso_timestamp [of example_env "''Etc/GMT-1''" one_hour_east]
      example_lookup v1 v2 upper_gmt1
    by (simp add: example_now_east u example_time_east example_time_utc)
qed

text \<open>
  C5. For every input string \<open>city\<close>, \<open>current_weather(city)\<close> returns exactly the constant
  string "sunny", independent of the input, and never fails.
\<close>

theorem current_weather_constant:
  "\<forall>city. current_weather city = Inr ''sunny''"
  by (simp add: current_weather_def)

text \<open>
  C6. \<open>current_weather\<close> gives identical results on identical input (on any two inputs, in
  fact). For \<open>current_time\<close>, the time zone handling of a run is fixed by the name and the
  time zone database alone: the zone object is \<open>tz.utc\<close> when the name upper-cases to "UTC"
  and otherwise whatever the database answers for the name, an exception included. Every run
  on that name against that database raises that exception or prints its own clock's
  reading in that zone object. So two runs on the same input differ through the clock's
  reading only; with the same reading they are equal, as is a second run made in the
  environment the first one left.
\<close>

theorem tools_idempotent:
  "current_weather city = current_weather city' \<and>
   (\<forall>env. zoneinfo_db env = db \<longrightarrow>
      fst (current_time env t) =
        (case (if upper t = ''UTC'' then Inr tz_utc else db t) of
           Inl e \<Rightarrow> Inl e
         | Inr tz \<Rightarrow> Inr (isoformat (tz (utcnow env))))) \<and>
   (zoneinfo_db env1 = zoneinfo_db env2 \<and> utcnow env1 = utcnow env2 \<longrightarrow>
      fst (current_time env1 t) = fst (current_time env2 t)) \<and>
   fst (current_time (snd (current_time env1 t)) t) = fst (current_time env1 t)"
proof (intro conjI impI allI)
  show "current_weather city = current_weather city'"
    by (simp add: current_weather_def)
next
  fix env :: clock_env
  assume d: "zoneinfo_db env = db"
  show "fst (current_time env t) =
        (case (if upper t = ''UTC'' then Inr tz_utc else db t) of
           Inl e \<Rightarrow> Inl e
         | Inr tz \<Rightarrow> Inr (isoformat (tz (utcnow env))))"
  proof (cases "upper t = ''UTC''")
    case True
    then show ?thesis by (simp add: current_time_utc datetime_now_def)
  next
    case False
    show ?thesis
    proof (cases "db t")
      case (Inl e)
      then have "zoneinfo_db env t = Inl e" using d by simp
      then show ?thesis using Inl False by (simp add: current_time_raises)
    next
      case (Inr z)
      then have "zoneinfo_db env t = Inr z" using d by simp
      then show ?thesis using Inr False by (simp add: current_time_zone datetime_now_def)
    qed
  qed
next
  assume "zoneinfo_db env1 = zoneinfo_db env2 \<and> utcnow env1 = utcnow env2"
  then show "fst (current_time env1 t) = fst (current_time env2 t)"
    by (rule current_time_same_reading)
next
  show "fst (current_time (snd (current_time env1 t)) t) = fst (current_time env1 t)"
  proof (cases "upper t = ''UTC''")
    case True
    then show ?thesis by (simp add: current_time_utc_no_lookup)
  next
    case False
    show ?thesis
      unfolding current_time_zone_lookup [OF False]
      by (rule current_time_same_reading) simp
  qed
qed

theorem tools_idempotent_witness:
  "current_weather ''Seattle'' = current_weather ''Seattle'' \<and>
   fst (current_time example_env ''Etc/GMT-1'') =
     Inr (isoformat (one_hour_east (utcnow example_env))) \<and>
   fst (current_time later_env ''Etc/GMT-1'') =
     Inr (isoformat (one_hour_east (utcnow later_env))) \<and>
   fst (current_time example_env ''Etc/GMT-1'') = Inr ''2025-06-01T13:30:45.000123+01:00'' \<and>
   fst (current_time later_env ''Etc/GMT-1'') = Inr ''2025-06-01T19:05:45.000123+01:00'' \<and>
   fst (current_time (example_env\<lparr>zoneinfo_lookups := [''Etc/GMT-1'']\<rparr>) ''Etc/GMT-1'') =
     Inr ''2025-06-01T13:30:45.000123+01:00''"
proof -
  note runs = tools_idempotent
    [of "''Seattle''" "''Seattle''" "zoneinfo_db example_env" "''Etc/GMT-1''" example_env
        "example_env\<lparr>zoneinfo_lookups := [''Etc/GMT-1'']\<rparr>"]
  note handling = runs [THEN conjunct2, THEN conjunct1, rule_format]
  have z: "(if upper ''Etc/GMT-1'' = ''UTC'' then Inr tz_utc
            else zoneinfo_db example_env ''Etc/GMT-1'') = Inr one_hour_east"
    by (simp add: upper_gmt1 example_lookup)
  have h1: "fst (current_time example_env ''Etc/GMT-1'') =
      Inr (isoformat (one_hour_east (utcnow example_env)))"
    using handling [of example_env, OF refl] by (simp only: z sum.case)
  have h2: "fst (current_time later_env ''Etc/GMT-1'') =
      Inr (isoformat (one_hour_east (utcnow later_env)))"
    using handling [of later_env, OF later_lookup [symmetric]] by (simp only: z sum.case)
  have same: "zoneinfo_db example_env =
        zoneinfo_db (example_env\<lparr>zoneinfo_lookups := [''Etc/GMT-1'']\<rparr>) \<and>
      utcnow example_env = utcnow (example_env\<lparr>zoneinfo_lookups := [''Etc/GMT-1'']\<rparr>)"
    by simp
  have "fst (current_time example_env ''Etc/GMT-1'') =
      fst (current_time (example_env\<lparr>zoneinfo_lookups := [''Etc/GMT-1'']\<rparr>) ''Etc/GMT-1'')"
    by (rule runs [THEN conjunct2, THEN conjunct2, THEN conjunct1, rule_format, OF same])
  then have second:
    "fst (current_time (example_env\<lparr>zoneinfo_lookups := [''Etc/GMT-1'']\<rparr>) ''Etc/GMT-1'') =
      Inr ''2025-06-01T13:30:45.000123+01:00''"
    by (simp only: example_time_east)
  have w: "current_weather ''Seattle'' = current_weather ''Seattle''"
    by (rule refl)
  show ?thesis
    by (intro conjI w h1 h2 example_time_east later_time_east second)
qed

text \<open>
  C7 (as amended). \<open>create_s3_bucket\<close> makes one create-bucket call and never a second.
  The request depends on the region: it carries a \<open>LocationConstraint\<close> unless the region
  is \<open>None\<close> or "us-east-1". A \<open>ClientError\<close> of the call is intercepted: the message of
  its response is printed and the function returns \<open>None\<close>; any other exception of the
  call, and any exception of constructing the client, propagates unchanged.
\<close>

theorem create_s3_bucket_one_call_by_region:
  "(\<forall>e. client_outcome w region = Some e \<longrightarrow>
       create_s3_bucket w bucket_name region = (Inl e, w)) \<and>
   (client_outcome w region = None \<longrightarrow>
      create_bucket_calls (snd (create_s3_bucket w bucket_name region)) =
        create_bucket_calls w @
        [\<lparr>cb_client_region = region, cb_Bucket = bucket_name,
          cb_LocationConstraint =
            (if region = None \<or> region = Some ''us-east-1'' then None else region)\<rparr>] \<and>
      (\<forall>e. create_bucket_outcome w (length (create_bucket_calls w))
              (create_bucket_request bucket_name region) = Some e \<and>
            \<not> isinstance e ''ClientError'' \<longrightarrow>
            fst (create_s3_bucket w bucket_name region) = Inl e) \<and>
      (\<forall>e msg. create_bucket_outcome w (length (create_bucket_calls w))
              (create_bucket_request bucket_name region) = Some e \<and>
            isinstance e ''ClientError'' \<and> response_message e = Some msg \<longrightarrow>
            fst (create_s3_bucket w bucket_name region) = Inr () \<and>
            stdout (snd (create_s3_bucket w bucket_name region)) =
              stdout w @ [cross_mark @ '' Failed to create bucket: '' @ msg]) \<and>
      (create_bucket_outcome w (length (create_bucket_calls w))
              (create_bucket_request bucket_name region) = None \<longrightarrow>
            fst (create_s3_bucket w bucket_name region) = Inr ()))"
proof (intro conjI allI impI)
  fix e assume "client_outcome w region = Some e"
  then show "create_s3_bucket w bucket_name region = (Inl e, w)"
    by (rule create_s3_bucket_client_raises)
next
  assume c: "client_outcome w region = None"
  show "create_bucket_calls (snd (create_s3_bucket w bucket_name region)) =
        create_bucket_calls w @
        [\<lparr>cb_client_region = region, cb_Bucket = bucket_name,
          cb_LocationConstraint =
            (if region = None \<or> region = Some ''us-east-1'' then None else region)\<rparr>]"
    using create_s3_bucket_calls [OF c] by (simp add: create_bucket_request_def)
next
  fix e
  assume c: "client_outcome w region = None"
    and "create_bucket_outcome w (length (create_bucket_calls w))
              (create_bucket_request bucket_name region) = Some e \<and>
            \<not> isinstance e ''ClientError''"
  then show "fst (create_s3_bucket w bucket_name region) = Inl e"
    by (simp add: create_s3_bucket_result [OF c])
next
  fix e msg
  assume c: "client_outcome w region = None"
    and "create_bucket_outcome w (length (create_bucket_calls w))
              (create_bucket_request bucket_name region) = Some e \<and>
            isinstance e ''ClientError'' \<and> response_message e = Some msg"
  then show "fst (create_s3_bucket w bucket_name region) = Inr ()"
    by (simp add: create_s3_bucket_result [OF c])
next
  fix e msg
  assume c: "client_outcome w region = None"
    and "create_bucket_outcome w (length (create_bucket_calls w))
              (create_bucket_request bucket_name region) = Some e \<and>
            isinstance e ''ClientError'' \<and> response_message e = Some msg"
  then show "stdout (snd (create_s3_bucket w bucket_name region)) =
              stdout w @ [cross_mark @ '' Failed to create bucket: '' @ msg]"
    by (simp add: create_s3_bucket_stdout [OF c])
next
  assume c: "client_outcome w region = None"
    and "create_bucket_outcome w (length (create_bucket_calls w))
              (create_bucket_request bucket_name region) = None"
  then show "fst (create_s3_bucket w bucket_name region) = Inr ()"
    by (simp add: create_s3_bucket_result [OF c])
qed

theorem create_s3_bucket_one_call_by_region_witness:
  "create_bucket_calls (snd (create_s3_bucket empty_world ''hr-bucket'' (Some ''eu-west-1''))) =
     [\<lparr>cb_client_region = Some ''eu-west-1'', cb_Bucket = ''hr-bucket'',
       cb_LocationConstraint = Some ''eu-west-1''\<rparr>] \<and>
   create_bucket_calls (snd (create_s3_bucket empty_world ''hr-bucket'' (Some ''us-east-1''))) =
     [\<lparr>cb_client_region = Some ''us-east-1'', cb_Bucket = ''hr-bucket'',
       cb_LocationConstraint = None\<rparr>] \<and>
   fst (create_s3_bucket empty_world ''hr-bucket'' (Some ''eu-west-1'')) = Inr () \<and>
   fst (create_s3_bucket taken_world ''hr-bucket'' None) = Inr () \<and>
   stdout (snd (create_s3_bucket taken_world ''hr-bucket'' None)) =
     [cross_mark @ '' Failed to create bucket: The requested bucket name is not available.''] \<and>
   fst (create_s3_bucket offline_world ''hr-bucket'' None) = Inl endpoint_error"
proof -
  have s: "stdout taken_world = []"
    by (simp add: taken_world_def empty_world_def)
  have c: "client_outcome empty_world r = None" "client_outcome taken_world r = None"
    "client_outcome offline_world r = None" for r
    by (simp_all add: empty_world_def taken_world_def offline_world_def)
  have o: "create_bucket_outcome empty_world n q = None"
    "create_bucket_outcome taken_world n q = Some bucket_taken"
    "create_bucket_outcome offline_world n q = Some endpoint_error" for n q
    by (simp_all add: empty_world_def taken_world_def offline_world_def)
  have l: "create_bucket_calls empty_world = []"
    by (simp add: empty_world_def)
  have m: "isinstance bucket_taken ''ClientError''"
    "response_message bucket_taken = Some ''The requested bucket name is not available.''"
    "\<not> isinstance endpoint_error ''ClientError''"
    by (simp_all add: isinstance_def bucket_taken_def endpoint_error_def)
  show ?thesis
    using create_s3_bucket_one_call_by_region [of empty_world "Some ''eu-west-1''" "''hr-bucket''"]
      create_s3_bucket_one_call_by_region [of empty_world "Some ''us-east-1''" "''hr-bucket''"]
      create_s3_bucket_one_call_by_region [of taken_world None "''hr-bucket''"]
      create_s3_bucket_one_call_by_region [of offline_world None "''hr-bucket''"]
    by (simp add: c o l m s)
qed

text \<open>
  C7 as stated, that the function is a single unconditional call whose failure propagates,
  fails twice over: on a \<open>ClientError\<close> the function returns \<open>None\<close> where the bare call
  raises, and for the region "eu-west-1" its request carries a \<open>LocationConstraint\<close> that
  the bare call does not send.
\<close>

theorem create_s3_bucket_differs_from_single_call:
  "fst (create_s3_bucket taken_world ''hr-bucket'' None) = Inr () \<and>
   fst (create_bucket_as_specified taken_world ''hr-bucket'' None) = Inl bucket_taken \<and>
   map cb_LocationConstraint
     (create_bucket_calls (snd (create_s3_bucket empty_world ''hr-bucket'' (Some ''eu-west-1'')))) =
     [Some ''eu-west-1''] \<and>
   map cb_LocationConstraint
     (create_bucket_calls
        (snd (create_bucket_as_specified empty_world ''hr-bucket'' (Some ''eu-west-1'')))) =
     [None]"
  by (simp add: create_s3_bucket_def create_bucket_as_specified_def boto3_client_def
      create_bucket_def taken_world_def empty_world_def bucket_taken_def isinstance_def
      py_print_def Let_def)

text \<open>
  C8. Whenever \<open>timezone.upper()\<close> is "UTC" (as for "utc" and "Utc"), \<open>current_time\<close>
  prints the clock's reading with the fixed zero offset and looks no zone up: the
  environment, with its record of lookups, is left as it was, and the result is the same
  under every time zone database. It equals the result of \<open>current_time("UTC")\<close> for the
  same clock. Only these names are taken for UTC: every other name is looked up, once.
\<close>

theorem current_time_utc_any_case:
  assumes "upper t = ''UTC''"
  shows "fst (current_time env t) = Inr (isoformat ((utcnow env)\<lparr>utcoffset := 0\<rparr>)) \<and>
         snd (current_time env t) = env \<and>
         current_time env t = current_time env ''UTC'' \<and>
         (\<forall>db. fst (current_time (env\<lparr>zoneinfo_db := db\<rparr>) t) = fst (current_time env t)) \<and>
         (\<forall>t'. upper t' \<noteq> ''UTC'' \<longrightarrow>
            zoneinfo_lookups (snd (current_time env t')) = zoneinfo_lookups env @ [t'])"
proof (intro conjI allI impI)
  show "fst (current_time env t) = Inr (isoformat ((utcnow env)\<lparr>utcoffset := 0\<rparr>))"
    using assms by (simp add: current_time_utc datetime_now_def tz_utc_def)
  show "snd (current_time env t) = env"
    using assms by (rule current_time_utc_no_lookup)
  show "current_time env t = current_time env ''UTC''"
    using assms upper_UTC by (simp add: current_time_def)
  show "fst (current_time (env\<lparr>zoneinfo_db := db\<rparr>) t) = fst (current_time env t)" for db
    using assms by (simp add: current_time_utc datetime_now_def)
  show "zoneinfo_lookups (snd (current_time env t')) = zoneinfo_lookups env @ [t']"
    if "upper t' \<noteq> ''UTC''" for t'
    using that by (simp add: current_time_zone_lookup)
qed

theorem current_time_utc_any_case_witness:
  "fst (current_time no_zones_env ''utc'') = Inr ''2025-06-01T12:30:45.000123+00:00'' \<and>
   zoneinfo_lookups (snd (current_time no_zones_env ''utc'')) = [] \<and>
   current_time no_zones_env ''Utc'' = current_time no_zones_env ''UTC'' \<and>
   fst (current_time (no_zones_env\<lparr>zoneinfo_db := zoneinfo_db example_env\<rparr>) ''utc'') =
     fst (current_time no_zones_env ''utc'') \<and>
   zoneinfo_lookups (snd (current_time no_zones_env ''Etc/GMT-1'')) = [''Etc/GMT-1'']"
proof -
  have s: "isoformat ((utcnow no_zones_env)\<lparr>utcoffset := 0\<rparr>) =
      ''2025-06-01T12:30:45.000123+00:00''"
    by (simp add: no_zones_env_def clock_reading_def isoformat_eval)
  have l: "zoneinfo_lookups no_zones_env = []"
    by (simp add: no_zones_env_def)
  note lower = current_time_utc_any_case [OF upper_utc_lower, of no_zones_env]
  note mixed = current_time_utc_any_case [OF upper_utc_mixed, of no_zones_env]
  have "fst (current_time no_zones_env ''utc'') = Inr ''2025-06-01T12:30:45.000123+00:00''"
    using lower [THEN conjunct1] by (simp add: s)
  moreover have "zoneinfo_lookups (snd (current_time no_zones_env ''utc'')) = []"
    using lower [THEN conjunct2, THEN conjunct1] by (simp add: l)
  moreover have "current_time no_zones_env ''Utc'' = current_time no_zones_env ''UTC''"
    by (rule mixed [THEN conjunct2, THEN conjunct2, THEN conjunct1])
  moreover have
    "fst (current_time (no_zones_env\<lparr>zoneinfo_db := zoneinfo_db example_env\<rparr>) ''utc'') =
     fst (current_time no_zones_env ''utc'')"
    by (rule lower [THEN conjunct2, THEN conjunct2, THEN conjunct2, THEN conjunct1, THEN spec])
  moreover have
    "zoneinfo_lookups (snd (current_time no_zones_env ''Etc/GMT-1'')) = [''Etc/GMT-1'']"
    using lower [THEN conjunct2, THEN conjunct2, THEN conjunct2, THEN conjunct2, rule_format,
        OF upper_gmt1]
    by (simp add: l)
  ultimately show ?thesis by (simp only: simp_thms)
qed

text \<open>
  C9. When the client is constructed and the create-bucket call either succeeds or raises a
  \<open>ClientError\<close> (whose response carries its message), \<open>create_s3_bucket\<close> returns
  \<open>None\<close> after printing one line: the caller cannot tell the failure from the return
  value.
\<close>

theorem create_s3_bucket_swallows_client_error:
  assumes "client_outcome w region = None"
    and "create_bucket_outcome w (length (create_bucket_calls w))
           (create_bucket_request bucket_name region) = outcome"
    and "outcome = None \<or>
         (\<exists>e msg. outcome = Some e \<and> isinstance e ''ClientError'' \<and>
                  response_message e = Some msg)"
  shows "fst (create_s3_bucket w bucket_name region) = Inr () \<and>
         (outcome = None \<longrightarrow>
            stdout (snd (create_s3_bucket w bucket_name region)) =
              stdout w @ [check_mark @ '' Bucket '' @ [CHR 0x27] @ bucket_name @ [CHR 0x27] @
                          '' created successfully.'']) \<and>
         (\<forall>e msg. outcome = Some e \<and> response_message e = Some msg \<longrightarrow>
            stdout (snd (create_s3_bucket w bucket_name region)) =
              stdout w @ [cross_mark @ '' Failed to create bucket: '' @ msg])"
  using assms(2,3)
  by (auto simp: create_s3_bucket_result [OF assms(1)] create_s3_bucket_stdout [OF assms(1)])

theorem create_s3_bucket_swallows_client_error_witness:
  "fst (create_s3_bucket empty_world ''hr-bucket'' None) = Inr () \<and>
   fst (create_s3_bucket taken_world ''hr-bucket'' None) = Inr () \<and>
   stdout (snd (create_s3_bucket taken_world ''hr-bucket'' None)) =
     [cross_mark @ '' Failed to create bucket: The requested bucket name is not available.'']"
proof -
  have c1: "client_outcome empty_world None = None"
    by (simp add: empty_world_def)
  have c2: "client_outcome taken_world None = None"
    by (simp add: taken_world_def empty_world_def)
  have o1: "create_bucket_outcome empty_world (length (create_bucket_calls empty_world))
      (create_bucket_request ''hr-bucket'' None) = None"
    by (simp add: empty_world_def)
  have o2: "create_bucket_outcome taken_world (length (create_bucket_calls taken_world))
      (create_bucket_request ''hr-bucket'' None) = Some bucket_taken"
    by (simp add: taken_world_def empty_world_def)
  have m: "isinstance bucket_taken ''ClientError'' \<and>
      response_message bucket_taken = Some ''The requested bucket name is not available.''"
    by (simp add: isinstance_def bucket_taken_def)
  have s: "stdout taken_world = []"
    by (simp add: taken_world_def empty_world_def)
  show ?thesis
    using create_s3_bucket_swallows_client_error [OF c1 o1]
      create_s3_bucket_swallows_client_error [OF c2 o2] m
    by (simp add: s)
qed

text \<open>
  C10. When no upload fails, \<open>upload_directory\<close> uploads every file under the directory
  tree, in the order of the walk, each under its base name as key. Of the files that share a
  base name the one walked last is what the bucket holds under that key in the end.
\<close>

theorem upload_directory_keys_are_base_names:
  assumes "filesystem w path = Some tree"
    and "\<forall>n c. upload_outcome w n c = None"
    and "fs = files_under path tree"
  shows "fst (upload_directory w path b) = Inr () \<and>
         upload_calls (snd (upload_directory w path b)) =
           upload_calls w @
           map (\<lambda>entry. \<lparr>up_Filename = os_path_join (fst entry) (snd entry), up_Bucket = b,
                          up_Key = snd entry\<rparr>) fs \<and>
         (\<forall>i j. i < j \<and> j < length fs \<and> snd (fs ! i) = snd (fs ! j) \<and>
                (\<forall>k. j < k \<and> k < length fs \<longrightarrow> snd (fs ! k) \<noteq> snd (fs ! j)) \<longrightarrow>
                objects (snd (upload_directory w path b)) (b, snd (fs ! i)) =
                  Some (os_path_join (fst (fs ! j)) (snd (fs ! j))))"
proof (intro conjI allI impI)
  note run = upload_directory_succeeds [OF assms(1,2), of b, folded assms(3)]
  show "fst (upload_directory w path b) = Inr ()"
    by (simp add: run)
  show "upload_calls (snd (upload_directory w path b)) =
           upload_calls w @
           map (\<lambda>entry. \<lparr>up_Filename = os_path_join (fst entry) (snd entry), up_Bucket = b,
                          up_Key = snd entry\<rparr>) fs"
    by (simp add: run foldl_upload_one_calls)
  fix i j
  assume h: "i < j \<and> j < length fs \<and> snd (fs ! i) = snd (fs ! j) \<and>
                (\<forall>k. j < k \<and> k < length fs \<longrightarrow> snd (fs ! k) \<noteq> snd (fs ! j))"
  define ps where "ps = map (\<lambda>entry. (snd entry, os_path_join (fst entry) (snd entry))) fs"
  have len: "j < length ps" using h by (simp add: ps_def)
  have last: "\<forall>k. j < k \<and> k < length ps \<longrightarrow> fst (ps ! k) \<noteq> fst (ps ! j)"
    using h by (simp add: ps_def)
  have "map_of (rev ps) (fst (ps ! j)) = Some (snd (ps ! j))"
    by (rule map_of_rev_last [OF len last])
  then have "map_of (rev ps) (snd (fs ! i)) = Some (os_path_join (fst (fs ! j)) (snd (fs ! j)))"
    using h by (simp add: ps_def)
  then show "objects (snd (upload_directory w path b)) (b, snd (fs ! i)) =
                  Some (os_path_join (fst (fs ! j)) (snd (fs ! j)))"
    by (simp add: run foldl_upload_one_objects ps_def)
qed

theorem upload_directory_keys_are_base_names_witness:
  "fst (upload_directory onboarding_world ''./onboarding_files'' ''hr-bucket'') = Inr () \<and>
   map up_Key
     (upload_calls (snd (upload_directory onboarding_world ''./onboarding_files'' ''hr-bucket''))) =
     [''README.md'', ''policy.pdf'', ''policy.pdf'', ''policy.pdf'', ''rates.csv''] \<and>
   map up_Filename
     (upload_calls (snd (upload_directory onboarding_world ''./onboarding_files'' ''hr-bucket''))) =
     [''./onboarding_files/README.md'', ''./onboarding_files/policy.pdf'',
      ''./onboarding_files/benefits/policy.pdf'', ''./onboarding_files/travel/policy.pdf'',
      ''./onboarding_files/travel/rates.csv''] \<and>
   objects (snd (upload_directory onboarding_world ''./onboarding_files'' ''hr-bucket''))
     (''hr-bucket'', ''policy.pdf'') = Some ''./onboarding_files/travel/policy.pdf''"
proof -
  define fs where "fs = files_under ''./onboarding_files'' onboarding_tree"
  have f: "filesystem onboarding_world ''./onboarding_files'' = Some onboarding_tree"
    by (simp add: onboarding_world_def)
  have u: "\<forall>n c. upload_outcome onboarding_world n c = None"
    by (simp add: onboarding_world_def empty_world_def)
  have c: "upload_calls onboarding_world = []"
    by (simp add: onboarding_world_def empty_world_def)
  note t = upload_directory_keys_are_base_names [OF f u fs_def, of "''hr-bucket''"]
  have fs: "fs = [(''./onboarding_files'', ''README.md''),
      (''./onboarding_files'', ''policy.pdf''),
      (''./onboarding_files/benefits'', ''policy.pdf''),
      (''./onboarding_files/travel'', ''policy.pdf''),
      (''./onboarding_files/travel'', ''rates.csv'')]"
    by (simp add: fs_def onboarding_files)
  have later: "\<forall>k. 3 < k \<and> k < length fs \<longrightarrow> snd (fs ! k) \<noteq> snd (fs ! 3)"
  proof (intro allI impI)
    fix k assume "3 < k \<and> k < length fs"
    then have "k = 4" by (simp add: fs)
    then show "snd (fs ! k) \<noteq> snd (fs ! 3)" by (simp add: fs)
  qed
  have pre: "(1::nat) < 3 \<and> 3 < length fs \<and> snd (fs ! 1) = snd (fs ! 3) \<and>
      (\<forall>k. 3 < k \<and> k < length fs \<longrightarrow> snd (fs ! k) \<noteq> snd (fs ! 3))"
    using later by (simp add: fs)
  from t have "objects (snd (upload_directory onboarding_world ''./onboarding_files'' ''hr-bucket''))
      (''hr-bucket'', snd (fs ! 1)) = Some (os_path_join (fst (fs ! 3)) (snd (fs ! 3)))"
    using pre by blast
  then have o: "objects (snd (upload_directory onboarding_world ''./onboarding_files'' ''hr-bucket''))
      (''hr-bucket'', ''policy.pdf'') = Some ''./onboarding_files/travel/policy.pdf''"
    by (simp add: fs os_path_join_def)
  from t have "upload_calls (snd (upload_directory onboarding_world ''./onboarding_files'' ''hr-bucket'')) =
      map (\<lambda>entry. \<lparr>up_Filename = os_path_join (fst entry) (snd entry), up_Bucket = ''hr-bucket'',
                     up_Key = snd entry\<rparr>) fs"
    by (simp add: c)
  then have k: "map up_Key
     (upload_calls (snd (upload_directory onboarding_world ''./onboarding_files'' ''hr-bucket''))) =
     [''README.md'', ''policy.pdf'', ''policy.pdf'', ''policy.pdf'', ''rates.csv'']"
    and n: "map up_Filename
     (upload_calls (snd (upload_directory onboarding_world ''./onboarding_files'' ''hr-bucket''))) =
     [''./onboarding_files/README.md'', ''./onboarding_files/policy.pdf'',
      ''./onboarding_files/benefits/policy.pdf'', ''./onboarding_files/travel/policy.pdf'',
      ''./onboarding_files/travel/rates.csv'']"
    by (simp_all add: fs os_path_join_def)
  from t have "fst (upload_directory onboarding_world ''./onboarding_files'' ''hr-bucket'') = Inr ()"
    by simp
  then show ?thesis using k n o by simp
qed

end
